theory Spec2Isabelle
  imports Complex_Main
begin

section \<open>Evaluation code of the notebook\<close>

text \<open>
  The notebook \<^verbatim>\<open>MLClassification/KNN.ipynb\<close> computes accuracies and picks the
  best K in plain Python. Python floats are modelled by exact reals, Python
  exceptions by values of \<open>py_error\<close>. The reals stand only for values that the
  doubles of the program hold exactly, or whose rounding does not change what is stated.
\<close>

datatype py_error = ValueError | ZeroDivisionError

text \<open>
  \<^verbatim>\<open>pred == y\<close> on a numpy array and a pandas Series: the comparison is elementwise and
  raises ValueError ("Lengths must match to compare") when the lengths differ.
\<close>

definition series_eq :: "'a list \<Rightarrow> 'a list \<Rightarrow> py_error + bool list" where
  "series_eq pred y =
     (if length pred \<noteq> length y then Inl ValueError
      else Inr (map (\<lambda>(p, t). p = t) (zip pred y)))"

text \<open>Python's \<^verbatim>\<open>sum\<close> over booleans counts the True entries.\<close>

fun py_sum :: "bool list \<Rightarrow> nat" where
  "py_sum [] = 0"
| "py_sum (b # bs) = (if b then 1 else 0) + py_sum bs"

text \<open>
  \<^verbatim>\<open>score = float(sum(pred == y)) / len(y)\<close>: the comparison is evaluated first, the
  division last; dividing by \<^verbatim>\<open>len(y) == 0\<close> raises ZeroDivisionError.
\<close>

definition score :: "'a list \<Rightarrow> 'a list \<Rightarrow> py_error + real" where
  "score pred y =
     (case series_eq pred y of
        Inl e \<Rightarrow> Inl e
      | Inr agree \<Rightarrow>
          if length y = 0 then Inl ZeroDivisionError
          else Inr (real (py_sum agree) / real (length y)))"

text \<open>
  Python compares tuples lexicographically: the first components that differ decide.
\<close>

fun tuple_gt :: "real \<times> int \<Rightarrow> real \<times> int \<Rightarrow> bool" where
  "tuple_gt (a1, k1) (a2, k2) = (if a1 \<noteq> a2 then a1 > a2 else k1 > k2)"

text \<open>
  \<^verbatim>\<open>max\<close> walks the list once and replaces its candidate only by a strictly greater item.
\<close>

fun py_max :: "real \<times> int \<Rightarrow> (real \<times> int) list \<Rightarrow> real \<times> int" where
  "py_max cur [] = cur"
| "py_max cur (x # xs) = py_max (if tuple_gt x cur then x else cur) xs"

text \<open>
  \<^verbatim>\<open>max(list(zip(testing_accuracies, k_range)))\<close>: \<^verbatim>\<open>zip\<close> stops at the shorter list, and
  \<^verbatim>\<open>max\<close> of an empty list raises ValueError.
\<close>

definition best_k :: "real list \<Rightarrow> int list \<Rightarrow> py_error + (real \<times> int)" where
  "best_k testing_accuracies k_range =
     (case zip testing_accuracies k_range of
        [] \<Rightarrow> Inl ValueError
      | p # ps \<Rightarrow> Inr (py_max p ps))"

section \<open>Feature scaling\<close>

text \<open>
  Feature matrices are lists of rows; every row of a dataset has the same number F of
  features. The notebook's columns are, in order, ast, stl, blk, tov, pf.
\<close>

type_synonym matrix = "real list list"

text \<open>
  Modelled from the spec: \<^verbatim>\<open>StandardScaler\<close> (scikit-learn, imported by the notebook; its
  code is not among the sources). The only error of the scaler is the spec's
  DegenerateFeature, a feature column of standard deviation zero.
\<close>

datatype scaler_error = DegenerateFeature

text \<open>
  Modelled from the spec: the scaler state, the mean and the standard deviation of every
  feature column. The deviation is the population one (divide by the number of rows), the
  one \<^verbatim>\<open>X_train[:,4].std()\<close> prints in the notebook.
\<close>

definition column :: "nat \<Rightarrow> matrix \<Rightarrow> real list" where
  "column j X = map (\<lambda>r. r ! j) X"

definition n_features :: "matrix \<Rightarrow> nat" where
  "n_features X = (case X of [] \<Rightarrow> 0 | r # _ \<Rightarrow> length r)"

definition mean :: "real list \<Rightarrow> real" where
  "mean xs = sum_list xs / real (length xs)"

definition std :: "real list \<Rightarrow> real" where
  "std xs = sqrt (sum_list (map (\<lambda>x. (x - mean xs)\<^sup>2) xs) / real (length xs))"

record scaler_state =
  means :: "real list"
  stds :: "real list"

text \<open>
  Modelled from the spec: \<^verbatim>\<open>StandardScaler.fit\<close> computes the mean and the standard
  deviation of every feature column and stores them; the notebook describes it so:
  "StandardScaler standardizes our data by subtracting the mean from each feature and
  dividing by its standard deviation". No column is read when the matrix has no row.
\<close>

definition scaler_fit :: "matrix \<Rightarrow> scaler_state" where
  "scaler_fit X =
     \<lparr>means = map (\<lambda>j. mean (column j X)) [0..<n_features X],
      stds = map (\<lambda>j. std (column j X)) [0..<n_features X]\<rparr>"

text \<open>
  Modelled from the spec: \<^verbatim>\<open>StandardScaler.transform\<close>. Each entry becomes
  (input - mean) / std of its column; a column of standard deviation 0 is a
  DegenerateFeature error.
\<close>

definition scaler_transform :: "scaler_state \<Rightarrow> matrix \<Rightarrow> scaler_error + matrix" where
  "scaler_transform st X =
     (if \<exists>s \<in> set (stds st). s = 0 then Inl DegenerateFeature
      else Inr (map (\<lambda>r. map (\<lambda>(x, m, s). (x - m) / s) (zip r (zip (means st) (stds st)))) X))"

text \<open>Modelled from the spec: \<^verbatim>\<open>fit_transform\<close> fits on the data and transforms the same data.\<close>

definition scaler_fit_transform :: "matrix \<Rightarrow> scaler_error + matrix" where
  "scaler_fit_transform X = scaler_transform (scaler_fit X) X"

text \<open>
  The notebook's standardisation cell:
  \<^verbatim>\<open>X_train = scaler.fit_transform(X_train)\<close>, then
  \<^verbatim>\<open>X_test = scaler.fit_transform(X_test)\<close>.
\<close>

definition standardize_cell :: "matrix \<Rightarrow> matrix \<Rightarrow> scaler_error + (matrix \<times> matrix)" where
  "standardize_cell X_train X_test =
     (case scaler_fit_transform X_train of
        Inl e \<Rightarrow> Inl e
      | Inr X_train' \<Rightarrow>
          (case scaler_fit_transform X_test of
             Inl e \<Rightarrow> Inl e
           | Inr X_test' \<Rightarrow> Inr (X_train', X_test')))"

section \<open>Accuracy\<close>

lemma py_sum_filter: "py_sum bs = length (filter (\<lambda>b. b) bs)"
  by (induction bs) auto

lemma agree_count:
  assumes "length pred = length y"
  shows "py_sum (map (\<lambda>(p, t). p = t) (zip pred y)) = card {i. i < length y \<and> pred ! i = y ! i}"
proof -
  let ?bs = "map (\<lambda>(p, t). p = t) (zip pred y)"
  have "py_sum ?bs = card {i. i < length ?bs \<and> ?bs ! i}"
    by (simp only: py_sum_filter length_filter_conv_card)
  also have "{i. i < length ?bs \<and> ?bs ! i} = {i. i < length y \<and> pred ! i = y ! i}"
    using assms by auto
  finally show ?thesis .
qed

lemma agree_le: "py_sum bs \<le> length bs"
  by (simp add: py_sum_filter)

text \<open>
  C9. For equal-length non-empty label sequences the accuracy is the number of positions
  where the prediction equals the true label divided by the number of positions, a value
  between 0 and 1. The computation fails exactly when the sequences differ in length
  (ValueError from the comparison) or are empty (ZeroDivisionError from the division).
\<close>

theorem score_accuracy:
  "(length pred = length y \<and> y \<noteq> [] \<longrightarrow>
      score pred y = Inr (real (card {i. i < length y \<and> pred ! i = y ! i}) / real (length y))
      \<and> (\<exists>r. score pred y = Inr r \<and> 0 \<le> r \<and> r \<le> 1))
   \<and> (isl (score pred y) \<longleftrightarrow> length pred \<noteq> length y \<or> pred = [] \<or> y = [])
   \<and> (length pred \<noteq> length y \<longrightarrow> score pred y = Inl ValueError)
   \<and> (pred = [] \<and> y = [] \<longrightarrow> score pred y = Inl ZeroDivisionError)"
proof -
  have ok: "score pred y = Inr (real (card {i. i < length y \<and> pred ! i = y ! i}) / real (length y))"
    if "length pred = length y" "y \<noteq> []"
    using that by (simp add: score_def series_eq_def agree_count)
  have range: "\<exists>r. score pred y = Inr r \<and> 0 \<le> r \<and> r \<le> 1"
    if "length pred = length y" "y \<noteq> []"
  proof -
    have "py_sum (map (\<lambda>(p, t). p = t) (zip pred y)) \<le> length y"
      using agree_le [of "map (\<lambda>(p, t). p = t) (zip pred y)"] that by simp
    then show ?thesis
      using that by (simp add: score_def series_eq_def)
  qed
  have fails: "isl (score pred y) \<longleftrightarrow> length pred \<noteq> length y \<or> pred = [] \<or> y = []"
    by (auto simp: score_def series_eq_def)
  have e1: "length pred \<noteq> length y \<longrightarrow> score pred y = Inl ValueError"
    by (simp add: score_def series_eq_def)
  have e2: "pred = [] \<and> y = [] \<longrightarrow> score pred y = Inl ZeroDivisionError"
    by (simp add: score_def series_eq_def)
  from ok range fails e1 e2 show ?thesis by blast
qed

theorem score_accuracy_witness:
  "score [0, 1, 2, 2 :: int] [0, 1, 1, 2] = Inr (3 / 4)
   \<and> score [0 :: int] [0, 1] = Inl ValueError
   \<and> score ([] :: int list) [] = Inl ZeroDivisionError"
proof -
  have c: "{i. i < length [0, 1, 1, 2 :: int] \<and> [0, 1, 2, 2 :: int] ! i = [0, 1, 1, 2] ! i} = {0, 1, 3}"
    by (auto simp: nth_Cons' less_Suc_eq)
  have t1: "score [0, 1, 2, 2 :: int] [0, 1, 1, 2] = Inr (3 / 4)"
    using score_accuracy [of "[0, 1, 2, 2 :: int]" "[0, 1, 1, 2]"] unfolding c by simp
  have t2: "score [0 :: int] [0, 1] = Inl ValueError"
    using score_accuracy [of "[0 :: int]" "[0, 1]"] by simp
  have t3: "score ([] :: int list) [] = Inl ZeroDivisionError"
    using score_accuracy [of "[] :: int list" "[]"] by simp
  from t1 t2 t3 show ?thesis by simp
qed

section \<open>Choice of the best K\<close>

lemma tuple_gt_iff:
  "tuple_gt p q \<longleftrightarrow> fst q < fst p \<or> (fst p = fst q \<and> snd q < snd p)"
  by (cases p; cases q) auto

lemma py_max_mem: "py_max cur xs \<in> set (cur # xs)"
  by (induction xs arbitrary: cur) auto

lemma py_max_keeps: "\<not> tuple_gt y cur \<Longrightarrow> \<not> tuple_gt y (py_max cur xs)"
proof (induction xs arbitrary: cur)
  case Nil
  then show ?case by simp
next
  case (Cons x xs)
  have "\<not> tuple_gt y (if tuple_gt x cur then x else cur)"
    using Cons.prems by (auto simp: tuple_gt_iff)
  then show ?case
    using Cons.IH by simp
qed

lemma py_max_greatest: "y \<in> set (cur # xs) \<Longrightarrow> \<not> tuple_gt y (py_max cur xs)"
proof (induction xs arbitrary: cur)
  case Nil
  then show ?case by (simp add: tuple_gt_iff)
next
  case (Cons x xs)
  show ?case
  proof (cases "y \<in> set xs")
    case True
    then show ?thesis using Cons.IH by simp
  next
    case False
    then have "y = cur \<or> y = x" using Cons.prems by auto
    then have "\<not> tuple_gt y (if tuple_gt x cur then x else cur)"
      by (auto simp: tuple_gt_iff)
    then show ?thesis
      using py_max_keeps by simp
  qed
qed

text \<open>
  C5, as the code has it. When the zipped sweep result is not empty, the pair returned
  by \<open>best_k\<close> is one of the (testing accuracy, k) pairs, its accuracy is maximal, and
  among the pairs with that maximal accuracy its k is the largest one.
\<close>

theorem best_k_largest:
  assumes "zip testing_accuracies k_range \<noteq> []"
  shows "\<exists>a k. best_k testing_accuracies k_range = Inr (a, k)
           \<and> (a, k) \<in> set (zip testing_accuracies k_range)
           \<and> (\<forall>(a', k') \<in> set (zip testing_accuracies k_range). a' \<le> a \<and> (a' = a \<longrightarrow> k' \<le> k))"
proof -
  from assms obtain p ps where z: "zip testing_accuracies k_range = p # ps"
    by (cases "zip testing_accuracies k_range") auto
  obtain a k where r: "py_max p ps = (a, k)"
    by (cases "py_max p ps") auto
  have b: "best_k testing_accuracies k_range = Inr (a, k)"
    by (simp add: best_k_def z r)
  have m: "(a, k) \<in> set (zip testing_accuracies k_range)"
    using py_max_mem [of p ps] by (simp only: z r)
  have g: "a' \<le> a \<and> (a' = a \<longrightarrow> k' \<le> k)"
    if "(a', k') \<in> set (zip testing_accuracies k_range)" for a' k'
    using py_max_greatest [of "(a', k')" p ps] that
    by (auto simp: z r tuple_gt_iff)
  from b m g show ?thesis by blast
qed

theorem best_k_largest_witness:
  "zip [1 / 2, 3 / 4, 3 / 4, 1 / 4 :: real] [1, 2, 3, 4 :: int] \<noteq> []
   \<and> best_k [1 / 2, 3 / 4, 3 / 4, 1 / 4] [1, 2, 3, 4] = Inr (3 / 4, 3)"
proof -
  have ne: "zip [1 / 2, 3 / 4, 3 / 4, 1 / 4 :: real] [1, 2, 3, 4 :: int] \<noteq> []"
    by simp
  from best_k_largest [OF ne] obtain a k where
    b: "best_k [1 / 2, 3 / 4, 3 / 4, 1 / 4] [1, 2, 3, 4] = Inr (a, k)"
    and m: "(a, k) \<in> set (zip [1 / 2, 3 / 4, 3 / 4, 1 / 4 :: real] [1, 2, 3, 4 :: int])"
    and g: "\<forall>(a', k') \<in> set (zip [1 / 2, 3 / 4, 3 / 4, 1 / 4 :: real] [1, 2, 3, 4 :: int]).
              a' \<le> a \<and> (a' = a \<longrightarrow> k' \<le> k)"
    by blast
  from m g have "a = 3 / 4 \<and> k = 3"
    by auto
  with b ne show ?thesis by simp
qed

text \<open>
  The tie-break is not towards the smallest k: with testing accuracy 1/2 at both k = 1
  and k = 2 the code returns k = 2.
\<close>

theorem best_k_smallest_counterexample:
  "best_k [1 / 2, 1 / 2] [1, 2] = Inr (1 / 2, 2)
   \<and> (1 / 2, 1) \<in> set (zip [1 / 2, 1 / 2 :: real] [1, 2 :: int])
   \<and> (1 :: int) < 2"
  by (simp add: best_k_def)

section \<open>Standardisation\<close>

lemma std_0_2: "std [0, 2] = 1"
  by (simp add: std_def mean_def)

lemma std_10_14: "std [10, 14] = 2"
  by (simp add: std_def mean_def)

lemma scaler_fit_five:
  "scaler_fit [[0, 0, 0, 0, 0], [2, 2, 2, 2, 2]]
     = \<lparr>means = [1, 1, 1, 1, 1], stds = [1, 1, 1, 1, 1]\<rparr>"
proof -
  have u: "[0..<5] = [0, 1, 2, 3, 4]"
    by (simp add: upt_rec)
  show ?thesis
    by (simp add: scaler_fit_def n_features_def column_def u std_0_2 mean_def)
qed

lemma scaler_fit_five_test:
  "scaler_fit [[10, 10, 10, 10, 10], [14, 14, 14, 14, 14]]
     = \<lparr>means = [12, 12, 12, 12, 12], stds = [2, 2, 2, 2, 2]\<rparr>"
proof -
  have u: "[0..<5] = [0, 1, 2, 3, 4]"
    by (simp add: upt_rec)
  show ?thesis
    by (simp add: scaler_fit_def n_features_def column_def u std_10_14 mean_def)
qed

text \<open>
  C4. The standardisation cell fits the scaler a second time on the test partition: test
  rows of 10s and of 14s are standardised with the test means 12 and deviations 2 and become
  rows of -1 and of 1, where the transform fitted on the training partition (means 1,
  deviations 1) maps them to rows of 9 and of 13. Nothing is reported.
\<close>

theorem standardize_cell_refits:
  "standardize_cell [[0, 0, 0, 0, 0], [2, 2, 2, 2, 2]]
       [[10, 10, 10, 10, 10], [14, 14, 14, 14, 14]]
     = Inr ([[- 1, - 1, - 1, - 1, - 1], [1, 1, 1, 1, 1]],
            [[- 1, - 1, - 1, - 1, - 1], [1, 1, 1, 1, 1]])
   \<and> scaler_transform (scaler_fit [[0, 0, 0, 0, 0], [2, 2, 2, 2, 2]])
       [[10, 10, 10, 10, 10], [14, 14, 14, 14, 14]]
     = Inr [[9, 9, 9, 9, 9], [13, 13, 13, 13, 13]]"
  by (simp add: standardize_cell_def scaler_fit_transform_def scaler_fit_five
      scaler_fit_five_test scaler_transform_def)

end
